theory Spec2Isabelle
  imports Complex_Main "HOL-Library.Char_ord" "HOL-Library.List_Lexorder"
begin

section \<open>Values, exceptions and data frames\<close>

text \<open>
  The program is \<^verbatim>\<open>PaperTrader.py\<close>. Its numbers are Python and numpy floats. A cell of
  a data frame is modelled as \<open>real option\<close>: \<open>None\<close> is NaN (what \<^verbatim>\<open>dropna\<close> removes and what
  makes every comparison false), \<open>Some x\<close> a number. Arithmetic on numbers is exact real
  arithmetic: rounding and infinities of IEEE doubles are not modelled.

  Exceptions are values: a computation that may raise has type \<open>exn + 'a\<close>, and \<open>bnd\<close>
  sequences two of them, stopping at the first exception as Python does.
\<close>

type_synonym cell = "real option"

datatype exn = IndexError | KeyError | TypeError | ValueError | OverflowError | LibraryError

definition bnd :: "exn + 'a \<Rightarrow> ('a \<Rightarrow> exn + 'b) \<Rightarrow> exn + 'b" where
  "bnd m f = (case m of Inl e \<Rightarrow> Inl e | Inr x \<Rightarrow> f x)"

definition cell_lt :: "cell \<Rightarrow> cell \<Rightarrow> bool" where
  "cell_lt a b = (case a of None \<Rightarrow> False | Some x \<Rightarrow> (case b of None \<Rightarrow> False | Some y \<Rightarrow> x < y))"

definition cell_le :: "cell \<Rightarrow> cell \<Rightarrow> bool" where
  "cell_le a b = (case a of None \<Rightarrow> False | Some x \<Rightarrow> (case b of None \<Rightarrow> False | Some y \<Rightarrow> x \<le> y))"

definition cell_gt :: "cell \<Rightarrow> cell \<Rightarrow> bool" where
  "cell_gt a b = cell_lt b a"

definition cell_ge :: "cell \<Rightarrow> cell \<Rightarrow> bool" where
  "cell_ge a b = cell_le b a"

text \<open>
  A pandas DataFrame: its column labels and its rows in index order, a row giving the cell
  of every column. \<^verbatim>\<open>df.empty\<close> holds when either axis has length 0.
\<close>

record frame =
  columns :: "string list"
  rows :: "(string \<Rightarrow> cell) list"

definition empty :: "frame \<Rightarrow> bool" where
  "empty df = (columns df = [] \<or> rows df = [])"

text \<open>\<^verbatim>\<open>df.dropna(inplace=True)\<close>: the rows with a NaN in some column are removed.\<close>

definition dropna :: "frame \<Rightarrow> frame" where
  "dropna df = df\<lparr>rows := filter (\<lambda>r. list_all (\<lambda>c. r c \<noteq> None) (columns df)) (rows df)\<rparr>"

text \<open>\<^verbatim>\<open>df[c]\<close> raises KeyError for a label that is not a column.\<close>

definition col :: "frame \<Rightarrow> string \<Rightarrow> exn + cell list" where
  "col df c = (if c \<in> set (columns df) then Inr (map (\<lambda>r. r c) (rows df)) else Inl KeyError)"

text \<open>\<^verbatim>\<open>series.iloc[-1]\<close> and \<^verbatim>\<open>df.iloc[-1]\<close> raise IndexError when there is no row.\<close>

definition iloc_last :: "'a list \<Rightarrow> exn + 'a" where
  "iloc_last xs = (if xs = [] then Inl IndexError else Inr (last xs))"

text \<open>\<^verbatim>\<open>latest[c]\<close> for a row \<open>latest\<close> of \<open>df\<close>: the row's index is the frame's columns.\<close>

definition item :: "frame \<Rightarrow> (string \<Rightarrow> cell) \<Rightarrow> string \<Rightarrow> exn + cell" where
  "item df latest c = (if c \<in> set (columns df) then Inr (latest c) else Inl KeyError)"

text \<open>
  \<^verbatim>\<open>df[c] = series\<close>: the column is added (or replaced). The series of the indicator
  library carry the index of their input, so the values line up with the rows; a series of
  another length is an exception in the model.
\<close>

definition set_col :: "string \<Rightarrow> cell list \<Rightarrow> frame \<Rightarrow> exn + frame" where
  "set_col c vs df =
     (if length vs \<noteq> length (rows df) then Inl ValueError
      else Inr \<lparr>columns = (if c \<in> set (columns df) then columns df else columns df @ [c]),
                rows = map2 (\<lambda>r v. r(c := v)) (rows df) vs\<rparr>)"

section \<open>External collaborators\<close>

text \<open>
  The indicator library \<^verbatim>\<open>ta\<close> and the price provider \<^verbatim>\<open>yfinance\<close> are not part of the
  repository: they are parameters. Each indicator maps its input series to a series or
  raises. \<open>download w ticker days\<close> is \<^verbatim>\<open>yf.download(ticker, period="<days>d", ...)\<close>: it
  raises, returns \<^verbatim>\<open>None\<close> or returns a frame.
\<close>

record ta_lib =
  rsi :: "cell list \<Rightarrow> exn + cell list"
  macd :: "cell list \<Rightarrow> exn + cell list"
  macd_signal :: "cell list \<Rightarrow> exn + cell list"
  bollinger_lband :: "cell list \<Rightarrow> exn + cell list"
  bollinger_hband :: "cell list \<Rightarrow> exn + cell list"
  adx :: "cell list \<Rightarrow> cell list \<Rightarrow> cell list \<Rightarrow> exn + cell list"
  sma_indicator :: "nat \<Rightarrow> cell list \<Rightarrow> exn + cell list"

record world =
  download :: "string \<Rightarrow> nat \<Rightarrow> exn + frame option"
  ta :: ta_lib

record config =
  STARTING_CASH :: real
  MAX_POSITION_SIZE :: real
  MAX_HOLD_DAYS :: int

section \<open>Ticker source\<close>

text \<open>
  \<^verbatim>\<open>get_sp_list\<close>: \<open>symbols\<close> is what the two Wikipedia tables gave (a page that fails is
  skipped); the result is \<^verbatim>\<open>sorted(set(t.replace(".", "-") for t in tickers))\<close>.
\<close>

definition replace_dot :: "string \<Rightarrow> string" where
  "replace_dot t = map (\<lambda>c. if c = CHR ''.'' then CHR ''-'' else c) t"

definition get_sp_list :: "string list \<Rightarrow> string list" where
  "get_sp_list symbols = sorted_list_of_set (set (map replace_dot symbols))"

section \<open>Indicator scan\<close>

text \<open>
  Lines 55 to 63 of \<^verbatim>\<open>scan_indicators\<close>: the seven indicator columns are computed from the
  frame and assigned one after the other.
\<close>

definition assign :: "string \<Rightarrow> (frame \<Rightarrow> exn + cell list) \<Rightarrow> frame \<Rightarrow> exn + frame" where
  "assign c f df = bnd (f df) (\<lambda>vs. set_col c vs df)"

definition add_indicators :: "ta_lib \<Rightarrow> frame \<Rightarrow> exn + frame" where
  "add_indicators lib df0 =
     bnd (assign ''rsi'' (\<lambda>d. bnd (col d ''Close'') (rsi lib)) df0) (\<lambda>df1.
     bnd (assign ''macd'' (\<lambda>d. bnd (col d ''Close'') (macd lib)) df1) (\<lambda>df2.
     bnd (assign ''macd_signal'' (\<lambda>d. bnd (col d ''Close'') (macd_signal lib)) df2) (\<lambda>df3.
     bnd (assign ''bb_lower'' (\<lambda>d. bnd (col d ''Close'') (bollinger_lband lib)) df3) (\<lambda>df4.
     bnd (assign ''bb_upper'' (\<lambda>d. bnd (col d ''Close'') (bollinger_hband lib)) df4) (\<lambda>df5.
     bnd (assign ''adx'' (\<lambda>d. bnd (col d ''High'') (\<lambda>h. bnd (col d ''Low'') (\<lambda>l.
            bnd (col d ''Close'') (\<lambda>c. adx lib h l c)))) df5) (\<lambda>df6.
     assign ''sma_200'' (\<lambda>d. bnd (col d ''Close'') (sma_indicator lib 200)) df6))))))"

text \<open>
  Lines 49 to 65: download, the test for no data, \<^verbatim>\<open>dropna\<close>, the indicators, \<^verbatim>\<open>dropna\<close>
  again. \<open>Inr None\<close> is the early \<^verbatim>\<open>return None, None\<close> of line 51.
\<close>

definition pipeline :: "world \<Rightarrow> string \<Rightarrow> exn + frame option" where
  "pipeline w ticker =
     bnd (download w ticker 250) (\<lambda>d.
       case d of
         None \<Rightarrow> Inr None
       | Some df \<Rightarrow>
           if empty df then Inr None
           else bnd (add_indicators (ta w) (dropna df)) (\<lambda>df'. Inr (Some (dropna df'))))"

text \<open>
  Lines 66 to 78: the five tests on the latest row, each appending its label to
  \<open>reasons\<close> in the order of the source.
\<close>

definition entry_reasons :: "frame \<Rightarrow> exn + string list" where
  "entry_reasons df =
     bnd (iloc_last (rows df)) (\<lambda>latest.
     bnd (item df latest ''rsi'') (\<lambda>v_rsi.
     let reasons = (if cell_lt v_rsi (Some 50) then [''RSI<50''] else []) in
     bnd (item df latest ''macd'') (\<lambda>v_macd.
     bnd (item df latest ''macd_signal'') (\<lambda>v_sig.
     let reasons = reasons @ (if cell_gt v_macd v_sig then [''MACD>Signal''] else []) in
     bnd (item df latest ''Close'') (\<lambda>v_close.
     bnd (item df latest ''bb_upper'') (\<lambda>v_bbu.
     let reasons = reasons @ (if cell_le v_close v_bbu then [''Close<=BB_Upper''] else []) in
     bnd (item df latest ''adx'') (\<lambda>v_adx.
     let reasons = reasons @ (if cell_gt v_adx (Some 15) then [''ADX>15''] else []) in
     bnd (item df latest ''sma_200'') (\<lambda>v_sma.
     let reasons = reasons @ (if cell_gt v_close v_sma then [''Close>SMA200''] else []) in
     Inr reasons))))))))"

text \<open>
  The body of the \<^verbatim>\<open>try\<close>, and \<^verbatim>\<open>scan_indicators\<close> itself, whose
  \<^verbatim>\<open>except Exception\<close> turns every exception into \<^verbatim>\<open>(None, None)\<close>.
\<close>

definition scan_try :: "world \<Rightarrow> string \<Rightarrow> exn + (frame option \<times> string list option)" where
  "scan_try w ticker =
     bnd (pipeline w ticker) (\<lambda>p.
       case p of
         None \<Rightarrow> Inr (None, None)
       | Some df \<Rightarrow>
           bnd (entry_reasons df) (\<lambda>reasons.
             Inr (Some df, if length reasons = 5 then Some reasons else None)))"

definition scan_indicators :: "world \<Rightarrow> string \<Rightarrow> frame option \<times> string list option" where
  "scan_indicators w ticker =
     (case scan_try w ticker of Inl e \<Rightarrow> (None, None) | Inr res \<Rightarrow> res)"

section \<open>The ledger files\<close>

text \<open>
  \<^verbatim>\<open>buys.csv\<close> holds the open positions and \<^verbatim>\<open>exits.csv\<close> the exit history. The model keeps
  their rows; the CSV text (header line, quoting) is not modelled, and a file that does not
  exist is a file without rows. A time is a number of microseconds, a date a number of
  days; \<^verbatim>\<open>strftime("%Y-%m-%d")\<close> and \<^verbatim>\<open>strptime(_, "%Y-%m-%d")\<close> are the conversions between
  a time and its date (the text form of the date is not modelled).
\<close>

record position =
  ticker :: string
  price :: real
  entry :: int
  reason :: string
  shares :: int

record exit_record =
  exit_ticker :: string
  exit_price :: cell
  exit_date :: int
  exit_reason :: string

record files =
  buy_log :: "position list"
  exit_log :: "exit_record list"

definition day_us :: int where
  "day_us = 86400000000"

definition strftime_date :: "int \<Rightarrow> int" where
  "strftime_date now = now div day_us"

definition strptime_date :: "int \<Rightarrow> int" where
  "strptime_date d = d * day_us"

definition timedelta_days :: "int \<Rightarrow> int" where
  "timedelta_days n = n * day_us"

definition load_portfolio :: "files \<Rightarrow> position list" where
  "load_portfolio fs = buy_log fs"

text \<open>\<^verbatim>\<open>log_buy\<close> and \<^verbatim>\<open>log_exit\<close> append one row to their file; neither reads the ledger.\<close>

definition log_buy :: "string \<Rightarrow> real \<Rightarrow> string \<Rightarrow> int \<Rightarrow> int \<Rightarrow> files \<Rightarrow> files" where
  "log_buy t p r n now fs =
     fs\<lparr>buy_log := buy_log fs @
          [\<lparr>ticker = t, price = p, entry = strftime_date now, reason = r, shares = n\<rparr>]\<rparr>"

definition log_exit :: "string \<Rightarrow> cell \<Rightarrow> string \<Rightarrow> int \<Rightarrow> files \<Rightarrow> files" where
  "log_exit t p r now fs =
     fs\<lparr>exit_log := exit_log fs @
          [\<lparr>exit_ticker = t, exit_price = p, exit_date = strftime_date now, exit_reason = r\<rparr>]\<rparr>"

section \<open>Entry phase\<close>

text \<open>\<^verbatim>\<open>", ".join(reasons)\<close>.\<close>

fun join :: "string \<Rightarrow> string list \<Rightarrow> string" where
  "join sep [] = []"
| "join sep [x] = x"
| "join sep (x # y # ys) = x @ sep @ join sep (y # ys)"

text \<open>
  \<^verbatim>\<open>int(allocation // price)\<close>. The price is a numpy float: for NaN the quotient is NaN and
  \<^verbatim>\<open>int\<close> raises ValueError; for 0 the quotient is not finite and \<^verbatim>\<open>int\<close> raises too
  (OverflowError for an infinity). Otherwise \<^verbatim>\<open>//\<close> is the floor of the quotient.
\<close>

definition int_floordiv :: "real \<Rightarrow> cell \<Rightarrow> exn + int" where
  "int_floordiv a c =
     (case c of
        None \<Rightarrow> Inl ValueError
      | Some p \<Rightarrow> if p = 0 then Inl OverflowError else Inr \<lfloor>a / p\<rfloor>)"

text \<open>
  \<^verbatim>\<open>balance\<close> as line 131 computes it from the loaded portfolio.
\<close>

definition invested :: "position list \<Rightarrow> real" where
  "invested ps = sum_list (map (\<lambda>r. price r * of_int (shares r)) ps)"

definition initial_balance :: "config \<Rightarrow> position list \<Rightarrow> real" where
  "initial_balance cfg portfolio = STARTING_CASH cfg - invested portfolio"

text \<open>
  Lines 142 to 148, for a ticker whose scan gave \<open>df\<close> and a non-empty \<open>reasons\<close>. The state
  of the loop is the files and the running balance.
\<close>

definition size_and_buy ::
  "config \<Rightarrow> int \<Rightarrow> string \<Rightarrow> frame \<Rightarrow> string list \<Rightarrow> files \<times> real \<Rightarrow> exn + files \<times> real" where
  "size_and_buy cfg now t df reasons st =
     bnd (col df ''Close'') (\<lambda>closes.
     bnd (iloc_last closes) (\<lambda>c.
     let allocation = STARTING_CASH cfg * MAX_POSITION_SIZE cfg in
     bnd (int_floordiv allocation c) (\<lambda>n.
       case c of
         None \<Rightarrow> Inl ValueError
       | Some p \<Rightarrow>
           if n > 0 \<and> p * of_int n \<le> snd st
           then Inr (log_buy t p (join '', '' reasons) n now (fst st), snd st - p * of_int n)
           else Inr st)))"

text \<open>
  One iteration of the loop of line 136. \<open>portfolio\<close> is the frame loaded at line 129; it
  is not reloaded during the loop. \<^verbatim>\<open>if reasons:\<close> holds for a list that is not empty.
\<close>

definition entry_step ::
  "config \<Rightarrow> world \<Rightarrow> int \<Rightarrow> position list \<Rightarrow> string \<Rightarrow> files \<times> real \<Rightarrow> exn + files \<times> real" where
  "entry_step cfg w now portfolio t st =
     (if t \<in> set (map ticker portfolio) then Inr st
      else
        (case scan_indicators w t of
           (d, None) \<Rightarrow> Inr st
         | (d, Some reasons) \<Rightarrow>
             if reasons = [] then Inr st
             else (case d of
                     None \<Rightarrow> Inl TypeError
                   | Some df \<Rightarrow> size_and_buy cfg now t df reasons st)))"

text \<open>
  The loop: an exception aborts it, and the files keep what was written before.
\<close>

fun entry_loop ::
  "config \<Rightarrow> world \<Rightarrow> int \<Rightarrow> position list \<Rightarrow> string list \<Rightarrow> files \<times> real
     \<Rightarrow> exn option \<times> files \<times> real" where
  "entry_loop cfg w now portfolio [] st = (None, st)"
| "entry_loop cfg w now portfolio (t # ts) st =
     (case entry_step cfg w now portfolio t st of
        Inl e \<Rightarrow> (Some e, st)
      | Inr st' \<Rightarrow> entry_loop cfg w now portfolio ts st')"

section \<open>Exit phase\<close>

text \<open>\<^verbatim>\<open>str\<close> of an integer, for \<^verbatim>\<open>f"Max Hold {MAX_HOLD_DAYS} days"\<close>.\<close>

definition digit_char :: "nat \<Rightarrow> char" where
  "digit_char d = ''0123456789'' ! d"

fun str_nat :: "nat \<Rightarrow> string" where
  "str_nat n = (if n < 10 then [digit_char n] else str_nat (n div 10) @ [digit_char (n mod 10)])"

definition str_int :: "int \<Rightarrow> string" where
  "str_int i = (if i < 0 then CHR ''-'' # str_nat (nat (- i)) else str_nat (nat i))"

text \<open>
  Lines 162 to 172: the exit reason of a row of the ledger against the fresh frame, \<open>None\<close>
  when no rule fires. \<^verbatim>\<open>latest["Close"]\<close> is read by the first test, so a frame without
  that column raises before any rule is decided.
\<close>

definition exit_rule :: "config \<Rightarrow> int \<Rightarrow> position \<Rightarrow> frame \<Rightarrow> exn + string option" where
  "exit_rule cfg now row df =
     bnd (iloc_last (rows df)) (\<lambda>latest.
     bnd (item df latest ''Close'') (\<lambda>c.
       if cell_ge c (Some (price row * 1.10)) then Inr (Some ''Take Profit 10%'')
       else if cell_le c (Some (price row * 0.93)) then Inr (Some ''Stop Loss 7%'')
       else if now - strptime_date (entry row) > timedelta_days (MAX_HOLD_DAYS cfg)
         then Inr (Some (''Max Hold '' @ str_int (MAX_HOLD_DAYS cfg) @ '' days''))
       else if ''macd'' \<in> set (columns df)
         then bnd (col df ''macd'') (\<lambda>ms.
              bnd (iloc_last ms) (\<lambda>m.
              bnd (col df ''macd_signal'') (\<lambda>ss.
              bnd (iloc_last ss) (\<lambda>s.
                if cell_lt m s then Inr (Some ''MACD cross down'') else Inr None))))
       else Inr None))"

text \<open>
  One iteration of the loop of line 155. The state is the files and \<open>to_keep\<close>. When the
  download gives nothing the source executes \<^verbatim>\<open>continue\<close>: the row is not appended to
  \<open>to_keep\<close>. \<^verbatim>\<open>if exit_reason:\<close> holds for a string that is not empty.
\<close>

definition exit_step ::
  "config \<Rightarrow> world \<Rightarrow> int \<Rightarrow> position \<Rightarrow> files \<times> position list \<Rightarrow> exn + files \<times> position list" where
  "exit_step cfg w now row st =
     bnd (download w (ticker row) 30) (\<lambda>d.
       case d of
         None \<Rightarrow> Inr st
       | Some df \<Rightarrow>
           if empty df then Inr st
           else
             bnd (exit_rule cfg now row df) (\<lambda>er.
               case er of
                 None \<Rightarrow> Inr (fst st, snd st @ [row])
               | Some r \<Rightarrow>
                   if r = [] then Inr (fst st, snd st @ [row])
                   else bnd (iloc_last (rows df)) (\<lambda>latest.
                        bnd (item df latest ''Close'') (\<lambda>c.
                          Inr (log_exit (ticker row) c r now (fst st), snd st)))))"

fun exit_loop ::
  "config \<Rightarrow> world \<Rightarrow> int \<Rightarrow> position list \<Rightarrow> files \<times> position list
     \<Rightarrow> exn option \<times> files \<times> position list" where
  "exit_loop cfg w now [] st = (None, st)"
| "exit_loop cfg w now (row # rs) st =
     (case exit_step cfg w now row st of
        Inl e \<Rightarrow> (Some e, st)
      | Inr st' \<Rightarrow> exit_loop cfg w now rs st')"

section \<open>The run\<close>

text \<open>
  \<^verbatim>\<open>run_bot\<close> without its printing and its e-mail: the entry loop over the tickers, then the
  exit loop over the reloaded ledger, then line 180, which rewrites \<^verbatim>\<open>buys.csv\<close> with
  \<open>to_keep\<close>. The result is the exception that aborted the run, if any, and the files as the
  run left them. The clock is read once, as \<open>now\<close>.
\<close>

definition run_bot :: "config \<Rightarrow> world \<Rightarrow> int \<Rightarrow> string list \<Rightarrow> files \<Rightarrow> exn option \<times> files" where
  "run_bot cfg w now symbols fs =
     (let portfolio = load_portfolio fs;
          tickers = get_sp_list symbols;
          balance = initial_balance cfg portfolio
      in case entry_loop cfg w now portfolio tickers (fs, balance) of
           (Some e, st) \<Rightarrow> (Some e, fst st)
         | (None, st) \<Rightarrow>
             (case exit_loop cfg w now (load_portfolio (fst st)) (fst st, []) of
                (Some e, st') \<Rightarrow> (Some e, fst st')
              | (None, st') \<Rightarrow> (None, (fst st')\<lparr>buy_log := snd st'\<rparr>)))"

section \<open>Example inputs\<close>

text \<open>
  The defaults of lines 15, 21 and 22, an indicator library that gives constant series, a
  provider without data and one with a fixed frame, frames of one bar, and a held position.
\<close>

definition default_config :: config where
  "default_config = \<lparr>STARTING_CASH = 10000, MAX_POSITION_SIZE = 0.05, MAX_HOLD_DAYS = 14\<rparr>"

definition flat_ta :: ta_lib where
  "flat_ta = \<lparr>rsi = (\<lambda>xs. Inr (map (\<lambda>_. Some 40) xs)),
              macd = (\<lambda>xs. Inr (map (\<lambda>_. Some 2) xs)),
              macd_signal = (\<lambda>xs. Inr (map (\<lambda>_. Some 1) xs)),
              bollinger_lband = (\<lambda>xs. Inr (map (\<lambda>_. Some 20) xs)),
              bollinger_hband = (\<lambda>xs. Inr (map (\<lambda>_. Some 30) xs)),
              adx = (\<lambda>hs ls xs. Inr (map (\<lambda>_. Some 20) xs)),
              sma_indicator = (\<lambda>n xs. Inr (map (\<lambda>_. Some 24) xs))\<rparr>"

definition no_data_world :: world where
  "no_data_world = \<lparr>download = (\<lambda>t n. Inr None), ta = flat_ta\<rparr>"

definition const_world :: "frame \<Rightarrow> world" where
  "const_world df = \<lparr>download = (\<lambda>t n. Inr (Some df)), ta = flat_ta\<rparr>"

definition bar :: "real \<Rightarrow> string \<Rightarrow> cell" where
  "bar c = (\<lambda>k. Some c)"

definition ohlcv :: "real \<Rightarrow> frame" where
  "ohlcv c = \<lparr>columns = [''Close'', ''High'', ''Low'', ''Open'', ''Volume''], rows = [bar c]\<rparr>"

definition with_macd :: "real \<Rightarrow> real \<Rightarrow> real \<Rightarrow> frame" where
  "with_macd c m s =
     \<lparr>columns = [''Close'', ''High'', ''Low'', ''Open'', ''Volume'', ''macd'', ''macd_signal''],
      rows = [\<lambda>k. if k = ''macd'' then Some m else if k = ''macd_signal'' then Some s else Some c]\<rparr>"

definition held :: "string \<Rightarrow> real \<Rightarrow> int \<Rightarrow> position" where
  "held t p d = \<lparr>ticker = t, price = p, entry = d, reason = ''RSI<50'', shares = 5\<rparr>"

text \<open>
  The frame the pipeline makes of \<open>ohlcv c\<close> with the constant indicators, and a world whose
  first indicator raises.
\<close>

definition scanned :: "real \<Rightarrow> frame" where
  "scanned c =
     \<lparr>columns = [''Close'', ''High'', ''Low'', ''Open'', ''Volume'', ''rsi'', ''macd'', ''macd_signal'',
                 ''bb_lower'', ''bb_upper'', ''adx'', ''sma_200''],
      rows = [(bar c)(''rsi'' := Some 40, ''macd'' := Some 2, ''macd_signal'' := Some 1,
                ''bb_lower'' := Some 20, ''bb_upper'' := Some 30, ''adx'' := Some 20,
                ''sma_200'' := Some 24)]\<rparr>"

definition failing_world :: "frame \<Rightarrow> world" where
  "failing_world df =
     \<lparr>download = (\<lambda>t n. Inr (Some df)), ta = flat_ta\<lparr>rsi := (\<lambda>xs. Inl LibraryError)\<rparr>\<rparr>"

section \<open>Basic facts\<close>

lemmas example_defs = default_config_def held_def ohlcv_def bar_def with_macd_def

lemma clock_defs: "strptime_date d = d * 86400000000" "timedelta_days n = n * 86400000000"
  by (simp_all add: strptime_date_def timedelta_days_def day_us_def)

lemma str_int_14: "str_int 14 = ''14''"
  by (simp add: str_int_def digit_char_def)

lemma get_sp_list_Nil: "get_sp_list [] = []"
  by (simp add: get_sp_list_def)

lemma bnd_Inr_iff: "bnd m f = Inr y \<longleftrightarrow> (\<exists>x. m = Inr x \<and> f x = Inr y)"
  by (cases m) (simp_all add: bnd_def)

lemma bnd_Inr [simp]: "bnd (Inr x) f = f x"
  by (simp add: bnd_def)

lemma bnd_Inl [simp]: "bnd (Inl e) f = Inl e"
  by (simp add: bnd_def)

lemma iloc_last_Cons: "xs \<noteq> [] \<Longrightarrow> iloc_last xs = Inr (last xs)"
  by (simp add: iloc_last_def)



lemma not_empty: "rows df \<noteq> [] \<Longrightarrow> c \<in> set (columns df) \<Longrightarrow> \<not> empty df"
  by (auto simp: empty_def)

section \<open>Exit rules\<close>

lemma exit_rule_nonempty:
  "exit_rule cfg now row df = Inr (Some r) \<Longrightarrow> r \<noteq> []"
  by (auto simp: exit_rule_def bnd_Inr_iff split: if_splits)

lemma exit_step_eq:
  assumes "download w (ticker row) 30 = Inr (Some df)" and "rows df \<noteq> []"
    and "''Close'' \<in> set (columns df)"
  shows "exit_step cfg w now row (fs, keep) =
     (case exit_rule cfg now row df of
        Inl e \<Rightarrow> Inl e
      | Inr None \<Rightarrow> Inr (fs, keep @ [row])
      | Inr (Some r) \<Rightarrow> Inr (log_exit (ticker row) (last (rows df) ''Close'') r now fs, keep))"
proof (cases "exit_rule cfg now row df")
  case (Inl e)
  then show ?thesis using assms by (simp add: exit_step_def not_empty)
next
  case (Inr er)
  show ?thesis
  proof (cases er)
    case None
    then show ?thesis using assms Inr by (simp add: exit_step_def not_empty)
  next
    case (Some r)
    then have "r \<noteq> []" using Inr exit_rule_nonempty by blast
    then show ?thesis using assms Inr Some
      by (simp add: exit_step_def not_empty iloc_last_Cons item_def)
  qed
qed



text \<open>
  Claim C9. The decision reads the clock: the max-hold rule compares the current time with
  the entry date. Two evaluations of an unchanged position against the same bars can
  therefore differ. Here a position entered on day 0 with a latest close equal to its entry
  price is kept when evaluated exactly 14 days later and closed for max-hold a day after.
\<close>

theorem exit_rule_clock_counterexample:
  "exit_rule default_config (14 * day_us) (held ''AAA'' 100 0) (ohlcv 100) = Inr None
   \<and> exit_rule default_config (15 * day_us) (held ''AAA'' 100 0) (ohlcv 100)
        = Inr (Some ''Max Hold 14 days'')"
  by (simp add: exit_rule_def example_defs iloc_last_def item_def cell_ge_def cell_le_def
      clock_defs day_us_def str_int_14)

text \<open>
  Claim C9, amended. Two evaluations of the same position against the same frame give the
  same decision whenever the max-hold test has the same outcome at both clock readings, in
  particular when both read the same time.
\<close>

theorem exit_rule_same_clock_test:
  "(now1 - strptime_date (entry row) > timedelta_days (MAX_HOLD_DAYS cfg))
     = (now2 - strptime_date (entry row) > timedelta_days (MAX_HOLD_DAYS cfg))
   \<Longrightarrow> exit_rule cfg now1 row df = exit_rule cfg now2 row df"
  by (simp add: exit_rule_def)

theorem exit_rule_same_clock_test_witness:
  "exit_rule default_config (13 * day_us) (held ''AAA'' 100 0) (ohlcv 100)
     = exit_rule default_config (14 * day_us) (held ''AAA'' 100 0) (ohlcv 100)"
  using exit_rule_same_clock_test [where cfg = default_config and row = "held ''AAA'' 100 0"
      and ?now1.0 = "13 * day_us" and ?now2.0 = "14 * day_us" and df = "ohlcv 100"]
  by (simp add: example_defs clock_defs day_us_def)

section \<open>Ledger operations\<close>



section \<open>Positions without data\<close>

text \<open>
  Claim C1. A ledger with one open position, a provider without data for its ticker: the
  run completes, the position is gone from the ledger and the exit history is empty.
\<close>

theorem run_bot_drops_position_without_data:
  "run_bot default_config no_data_world 0 [] \<lparr>buy_log = [held ''AAA'' 100 0], exit_log = []\<rparr>
     = (None, \<lparr>buy_log = [], exit_log = []\<rparr>)"
  by (simp add: run_bot_def get_sp_list_Nil load_portfolio_def exit_step_def no_data_world_def)

section \<open>Steps, loops and the run\<close>

subsection \<open>What one step can do\<close>

lemma size_and_buy_cases:
  assumes "size_and_buy cfg now t df reasons (fs, b) = Inr (fs', b')"
  shows "(fs' = fs \<and> b' = b) \<or>
     (\<exists>p n. p \<noteq> 0 \<and> n = \<lfloor>STARTING_CASH cfg * MAX_POSITION_SIZE cfg / p\<rfloor> \<and> 0 < n
        \<and> p * of_int n \<le> b \<and> fs' = log_buy t p (join '', '' reasons) n now fs
        \<and> b' = b - p * of_int n)"
  using assms
  by (auto simp: size_and_buy_def bnd_Inr_iff int_floordiv_def Let_def
      split: option.splits if_splits)

lemma entry_step_cases:
  assumes "entry_step cfg w now pf t (fs, b) = Inr (fs', b')"
  shows "(fs' = fs \<and> b' = b) \<or>
     (t \<notin> set (map ticker pf) \<and>
      (\<exists>p n r. p \<noteq> 0 \<and> n = \<lfloor>STARTING_CASH cfg * MAX_POSITION_SIZE cfg / p\<rfloor> \<and> 0 < n
        \<and> p * of_int n \<le> b \<and> fs' = log_buy t p r n now fs \<and> b' = b - p * of_int n))"
proof (cases "t \<in> set (map ticker pf)")
  case True
  then show ?thesis using assms by (simp add: entry_step_def)
next
  case False
  obtain d rs where sc: "scan_indicators w t = (d, rs)" by (cases "scan_indicators w t")
  show ?thesis
  proof (cases "\<exists>df reasons. d = Some df \<and> rs = Some reasons \<and> reasons \<noteq> []")
    case True
    then obtain df reasons where "d = Some df" "rs = Some reasons" "reasons \<noteq> []" by blast
    then have "size_and_buy cfg now t df reasons (fs, b) = Inr (fs', b')"
      using assms False sc by (simp add: entry_step_def)
    from size_and_buy_cases [OF this] False show ?thesis by blast
  next
    case no: False
    then have "fs' = fs \<and> b' = b"
      using assms False sc by (auto simp: entry_step_def split: option.splits if_splits)
    then show ?thesis by simp
  qed
qed

lemma exit_step_cases:
  assumes "exit_step cfg w now row (fs, keep) = Inr (fs', keep')"
  shows "(fs' = fs \<and> (keep' = keep \<or> keep' = keep @ [row])) \<or>
     (\<exists>df c r. download w (ticker row) 30 = Inr (Some df) \<and> exit_rule cfg now row df = Inr (Some r)
        \<and> fs' = log_exit (ticker row) c r now fs \<and> keep' = keep)"
proof (cases "download w (ticker row) 30")
  case (Inl e)
  then show ?thesis using assms by (simp add: exit_step_def)
next
  case (Inr d)
  show ?thesis
  proof (cases d)
    case None
    then show ?thesis using assms Inr by (simp add: exit_step_def)
  next
    case (Some df)
    show ?thesis
    proof (cases "empty df")
      case True
      then show ?thesis using assms Inr Some by (simp add: exit_step_def)
    next
      case False
      show ?thesis
      proof (cases "exit_rule cfg now row df")
        case (Inl e)
        then show ?thesis using assms Inr Some False by (simp add: exit_step_def)
      next
        case er: (Inr er)
        show ?thesis
        proof (cases er)
          case None
          then show ?thesis using assms Inr Some False er by (simp add: exit_step_def)
        next
          case r: (Some r)
          show ?thesis
          proof (cases "r = []")
            case True
            then show ?thesis using assms Inr Some False er r by (simp add: exit_step_def)
          next
            case nonempty: False
            then obtain c where "fs' = log_exit (ticker row) c r now fs" "keep' = keep"
              using assms Inr Some False er r by (auto simp: exit_step_def bnd_Inr_iff)
            then show ?thesis using Inr Some er r by blast
          qed
        qed
      qed
    qed
  qed
qed

subsection \<open>Loop invariants\<close>

lemma entry_loop_inv:
  assumes "entry_loop cfg w now pf ts (fs, b) = (e, fs', b')"
  shows "exit_log fs' = exit_log fs \<and>
     (\<exists>new. buy_log fs' = buy_log fs @ new
        \<and> set (map ticker new) \<subseteq> set ts - set (map ticker pf)
        \<and> (distinct ts \<longrightarrow> distinct (map ticker new))
        \<and> b' = b - invested new)
     \<and> (0 \<le> b \<longrightarrow> 0 \<le> b')"
  using assms
proof (induction ts arbitrary: fs b)
  case Nil
  then show ?case by (simp add: invested_def)
next
  case (Cons t ts)
  show ?case
  proof (cases "entry_step cfg w now pf t (fs, b)")
    case (Inl x)
    then show ?thesis using Cons.prems by (simp add: invested_def)
  next
    case (Inr st)
    obtain fs1 b1 where st: "st = (fs1, b1)" by (cases st)
    have loop: "entry_loop cfg w now pf ts (fs1, b1) = (e, fs', b')"
      using Cons.prems Inr st by simp
    note ih = Cons.IH [OF loop]
    then obtain new where new: "buy_log fs' = buy_log fs1 @ new"
      "set (map ticker new) \<subseteq> set ts - set (map ticker pf)"
      "distinct ts \<longrightarrow> distinct (map ticker new)" "b' = b1 - invested new"
      by blast
    from entry_step_cases [OF Inr [unfolded st]]
    consider "fs1 = fs" "b1 = b"
      | p n r where "t \<notin> set (map ticker pf)" "0 < n" "p * of_int n \<le> b"
          "fs1 = log_buy t p r n now fs" "b1 = b - p * of_int n"
      by blast
    then show ?thesis
    proof cases
      case 1
      then show ?thesis using ih new by auto
    next
      case 2
      let ?row = "\<lparr>ticker = t, price = p, entry = strftime_date now, reason = r, shares = n\<rparr>"
      have b1: "0 \<le> b1" using 2 by simp
      have "buy_log fs' = buy_log fs @ (?row # new)"
        using new(1) 2 by (simp add: log_buy_def)
      moreover have "set (map ticker (?row # new)) \<subseteq> set (t # ts) - set (map ticker pf)"
        using new(2) 2(1) by auto
      moreover have "distinct (t # ts) \<longrightarrow> distinct (map ticker (?row # new))"
        using new(2,3) by auto
      moreover have "b' = b - invested (?row # new)"
        using new(4) 2 by (simp add: invested_def)
      moreover have "exit_log fs' = exit_log fs" using ih 2 by (simp add: log_buy_def)
      moreover have "0 \<le> b'" using ih b1 by simp
      ultimately show ?thesis by blast
    qed
  qed
qed

lemma exit_loop_inv:
  assumes "exit_loop cfg w now rs (fs, keep) = (e, fs', keep')"
  shows "buy_log fs' = buy_log fs \<and>
     (\<exists>new. exit_log fs' = exit_log fs @ new
        \<and> (\<forall>x\<in>set new. \<exists>row\<in>set rs. \<exists>df. download w (ticker row) 30 = Inr (Some df)
              \<and> exit_rule cfg now row df = Inr (Some (exit_reason x))))
     \<and> (\<exists>ks. keep' = keep @ ks \<and> set ks \<subseteq> set rs
           \<and> (distinct (map ticker rs) \<longrightarrow> distinct (map ticker ks)))"
  using assms
proof (induction rs arbitrary: fs keep)
  case Nil
  then show ?case by simp
next
  case (Cons row rs)
  show ?case
  proof (cases "exit_step cfg w now row (fs, keep)")
    case (Inl x)
    then show ?thesis using Cons.prems by simp
  next
    case (Inr st)
    obtain fs1 keep1 where st: "st = (fs1, keep1)" by (cases st)
    have loop: "exit_loop cfg w now rs (fs1, keep1) = (e, fs', keep')"
      using Cons.prems Inr st by simp
    from Cons.IH [OF loop] obtain new ks where ih:
      "buy_log fs' = buy_log fs1" "exit_log fs' = exit_log fs1 @ new"
      "\<forall>x\<in>set new. \<exists>row\<in>set rs. \<exists>df. download w (ticker row) 30 = Inr (Some df)
              \<and> exit_rule cfg now row df = Inr (Some (exit_reason x))"
      "keep' = keep1 @ ks" "set ks \<subseteq> set rs"
      "distinct (map ticker rs) \<longrightarrow> distinct (map ticker ks)"
      by blast
    from exit_step_cases [OF Inr [unfolded st]]
    consider "fs1 = fs" "keep1 = keep" | "fs1 = fs" "keep1 = keep @ [row]"
      | df c r where "download w (ticker row) 30 = Inr (Some df)"
          "exit_rule cfg now row df = Inr (Some r)"
          "fs1 = log_exit (ticker row) c r now fs" "keep1 = keep"
      by blast
    then show ?thesis
    proof cases
      case 1
      have "\<forall>x\<in>set new. \<exists>row\<in>set (row # rs). \<exists>df. download w (ticker row) 30 = Inr (Some df)
              \<and> exit_rule cfg now row df = Inr (Some (exit_reason x))"
        using ih(3) by auto
      moreover have "keep' = keep @ ks \<and> set ks \<subseteq> set (row # rs)
           \<and> (distinct (map ticker (row # rs)) \<longrightarrow> distinct (map ticker ks))"
        using ih(4,5,6) 1 by auto
      ultimately show ?thesis using ih(1,2) 1 by blast
    next
      case 2
      have "\<forall>x\<in>set new. \<exists>row\<in>set (row # rs). \<exists>df. download w (ticker row) 30 = Inr (Some df)
              \<and> exit_rule cfg now row df = Inr (Some (exit_reason x))"
        using ih(3) by auto
      moreover have "keep' = keep @ (row # ks) \<and> set (row # ks) \<subseteq> set (row # rs)
           \<and> (distinct (map ticker (row # rs)) \<longrightarrow> distinct (map ticker (row # ks)))"
        using ih(4,5,6) 2 by auto
      ultimately show ?thesis using ih(1,2) 2 by blast
    next
      case 3
      let ?x = "\<lparr>exit_ticker = ticker row, exit_price = c, exit_date = strftime_date now,
                exit_reason = r\<rparr>"
      have "exit_log fs' = exit_log fs @ (?x # new)"
        using ih(2) 3 by (simp add: log_exit_def)
      moreover have "\<forall>x\<in>set (?x # new). \<exists>row\<in>set (row # rs). \<exists>df.
              download w (ticker row) 30 = Inr (Some df)
              \<and> exit_rule cfg now row df = Inr (Some (exit_reason x))"
        using ih(3) 3(1,2) by auto
      moreover have "keep' = keep @ ks \<and> set ks \<subseteq> set (row # rs)
           \<and> (distinct (map ticker (row # rs)) \<longrightarrow> distinct (map ticker ks))"
        using ih(4,5,6) 3 by auto
      moreover have "buy_log fs' = buy_log fs" using ih(1) 3 by (simp add: log_exit_def)
      ultimately show ?thesis by blast
    qed
  qed
qed

lemma exit_rule_without_macd:
  assumes "''macd'' \<notin> set (columns df)" and "exit_rule cfg now row df = Inr (Some r)"
  shows "r \<in> {''Take Profit 10%'', ''Stop Loss 7%'',
              ''Max Hold '' @ str_int (MAX_HOLD_DAYS cfg) @ '' days''}"
  using assms by (auto simp: exit_rule_def bnd_Inr_iff split: if_splits)


subsection \<open>The frame of the pipeline\<close>

lemma assign_columns:
  "assign c f d = Inr d' \<Longrightarrow> set (columns d') = insert c (set (columns d))"
  by (auto simp: assign_def set_col_def bnd_Inr_iff split: if_splits)

lemma assign_needs_col:
  "assign c (\<lambda>d. bnd (col d k) g) d = Inr d' \<Longrightarrow> k \<in> set (columns d)"
  by (auto simp: assign_def bnd_Inr_iff col_def split: if_splits)

lemma bnd_InrE:
  assumes "bnd m f = Inr y"
  obtains x where "m = Inr x" and "f x = Inr y"
  using assms by (auto simp: bnd_Inr_iff)

lemma insert7:
  "insert g (insert f (insert e (insert d (insert c (insert b (insert a S))))))
     = S \<union> {a, b, c, d, e, f, g}"
  by blast

lemma add_indicators_columns:
  assumes "add_indicators lib d = Inr d'"
  shows "set (columns d') = set (columns d) \<union>
           {''rsi'', ''macd'', ''macd_signal'', ''bb_lower'', ''bb_upper'', ''adx'', ''sma_200''}"
    and "''Close'' \<in> set (columns d)"
proof -
  from assms [unfolded add_indicators_def] obtain d1 where
    s1: "assign ''rsi'' (\<lambda>d. bnd (col d ''Close'') (rsi lib)) d = Inr d1" and
    r1: "bnd (assign ''macd'' (\<lambda>d. bnd (col d ''Close'') (macd lib)) d1) (\<lambda>df2.
     bnd (assign ''macd_signal'' (\<lambda>d. bnd (col d ''Close'') (macd_signal lib)) df2) (\<lambda>df3.
     bnd (assign ''bb_lower'' (\<lambda>d. bnd (col d ''Close'') (bollinger_lband lib)) df3) (\<lambda>df4.
     bnd (assign ''bb_upper'' (\<lambda>d. bnd (col d ''Close'') (bollinger_hband lib)) df4) (\<lambda>df5.
     bnd (assign ''adx'' (\<lambda>d. bnd (col d ''High'') (\<lambda>h. bnd (col d ''Low'') (\<lambda>l.
            bnd (col d ''Close'') (\<lambda>c. adx lib h l c)))) df5) (\<lambda>df6.
     assign ''sma_200'' (\<lambda>d. bnd (col d ''Close'') (sma_indicator lib 200)) df6))))) = Inr d'"
    by (rule bnd_InrE)
  from r1 obtain d2 where
    s2: "assign ''macd'' (\<lambda>d. bnd (col d ''Close'') (macd lib)) d1 = Inr d2" and
    r2: "bnd (assign ''macd_signal'' (\<lambda>d. bnd (col d ''Close'') (macd_signal lib)) d2) (\<lambda>df3.
     bnd (assign ''bb_lower'' (\<lambda>d. bnd (col d ''Close'') (bollinger_lband lib)) df3) (\<lambda>df4.
     bnd (assign ''bb_upper'' (\<lambda>d. bnd (col d ''Close'') (bollinger_hband lib)) df4) (\<lambda>df5.
     bnd (assign ''adx'' (\<lambda>d. bnd (col d ''High'') (\<lambda>h. bnd (col d ''Low'') (\<lambda>l.
            bnd (col d ''Close'') (\<lambda>c. adx lib h l c)))) df5) (\<lambda>df6.
     assign ''sma_200'' (\<lambda>d. bnd (col d ''Close'') (sma_indicator lib 200)) df6)))) = Inr d'"
    by (rule bnd_InrE)
  from r2 obtain d3 where
    s3: "assign ''macd_signal'' (\<lambda>d. bnd (col d ''Close'') (macd_signal lib)) d2 = Inr d3" and
    r3: "bnd (assign ''bb_lower'' (\<lambda>d. bnd (col d ''Close'') (bollinger_lband lib)) d3) (\<lambda>df4.
     bnd (assign ''bb_upper'' (\<lambda>d. bnd (col d ''Close'') (bollinger_hband lib)) df4) (\<lambda>df5.
     bnd (assign ''adx'' (\<lambda>d. bnd (col d ''High'') (\<lambda>h. bnd (col d ''Low'') (\<lambda>l.
            bnd (col d ''Close'') (\<lambda>c. adx lib h l c)))) df5) (\<lambda>df6.
     assign ''sma_200'' (\<lambda>d. bnd (col d ''Close'') (sma_indicator lib 200)) df6))) = Inr d'"
    by (rule bnd_InrE)
  from r3 obtain d4 where
    s4: "assign ''bb_lower'' (\<lambda>d. bnd (col d ''Close'') (bollinger_lband lib)) d3 = Inr d4" and
    r4: "bnd (assign ''bb_upper'' (\<lambda>d. bnd (col d ''Close'') (bollinger_hband lib)) d4) (\<lambda>df5.
     bnd (assign ''adx'' (\<lambda>d. bnd (col d ''High'') (\<lambda>h. bnd (col d ''Low'') (\<lambda>l.
            bnd (col d ''Close'') (\<lambda>c. adx lib h l c)))) df5) (\<lambda>df6.
     assign ''sma_200'' (\<lambda>d. bnd (col d ''Close'') (sma_indicator lib 200)) df6)) = Inr d'"
    by (rule bnd_InrE)
  from r4 obtain d5 where
    s5: "assign ''bb_upper'' (\<lambda>d. bnd (col d ''Close'') (bollinger_hband lib)) d4 = Inr d5" and
    r5: "bnd (assign ''adx'' (\<lambda>d. bnd (col d ''High'') (\<lambda>h. bnd (col d ''Low'') (\<lambda>l.
            bnd (col d ''Close'') (\<lambda>c. adx lib h l c)))) d5) (\<lambda>df6.
     assign ''sma_200'' (\<lambda>d. bnd (col d ''Close'') (sma_indicator lib 200)) df6) = Inr d'"
    by (rule bnd_InrE)
  from r5 obtain d6 where
    s6: "assign ''adx'' (\<lambda>d. bnd (col d ''High'') (\<lambda>h. bnd (col d ''Low'') (\<lambda>l.
            bnd (col d ''Close'') (\<lambda>c. adx lib h l c)))) d5 = Inr d6" and
    s7: "assign ''sma_200'' (\<lambda>d. bnd (col d ''Close'') (sma_indicator lib 200)) d6 = Inr d'"
    by (rule bnd_InrE)
  show "''Close'' \<in> set (columns d)" using s1 by (rule assign_needs_col)
  have "set (columns d1) = insert ''rsi'' (set (columns d))" using s1 by (rule assign_columns)
  moreover have "set (columns d2) = insert ''macd'' (set (columns d1))"
    using s2 by (rule assign_columns)
  moreover have "set (columns d3) = insert ''macd_signal'' (set (columns d2))"
    using s3 by (rule assign_columns)
  moreover have "set (columns d4) = insert ''bb_lower'' (set (columns d3))"
    using s4 by (rule assign_columns)
  moreover have "set (columns d5) = insert ''bb_upper'' (set (columns d4))"
    using s5 by (rule assign_columns)
  moreover have "set (columns d6) = insert ''adx'' (set (columns d5))"
    using s6 by (rule assign_columns)
  moreover have "set (columns d') = insert ''sma_200'' (set (columns d6))"
    using s7 by (rule assign_columns)
  ultimately have eq: "set (columns d') = insert ''sma_200'' (insert ''adx'' (insert ''bb_upper''
      (insert ''bb_lower'' (insert ''macd_signal'' (insert ''macd'' (insert ''rsi''
      (set (columns d))))))))"
    by (simp only:)
  show "set (columns d') = set (columns d) \<union>
           {''rsi'', ''macd'', ''macd_signal'', ''bb_lower'', ''bb_upper'', ''adx'', ''sma_200''}"
    unfolding eq by (rule insert7)
qed

lemma dropna_simps [simp]:
  "columns (dropna d) = columns d"
  "r \<in> set (rows (dropna d)) \<longleftrightarrow> r \<in> set (rows d) \<and> (\<forall>c\<in>set (columns d). r c \<noteq> None)"
  by (auto simp: dropna_def list_all_iff)

lemma pipeline_frame:
  assumes "pipeline w t = Inr (Some df)"
  shows "{''Close'', ''rsi'', ''macd'', ''macd_signal'', ''bb_lower'', ''bb_upper'', ''adx'',
          ''sma_200''} \<subseteq> set (columns df)"
    and "\<forall>r\<in>set (rows df). \<forall>c\<in>set (columns df). r c \<noteq> None"
proof -
  from assms obtain d0 d1 where "download w t 250 = Inr (Some d0)"
    and ai: "add_indicators (ta w) (dropna d0) = Inr d1" and df: "df = dropna d1"
    by (auto simp: pipeline_def bnd_Inr_iff split: option.splits if_splits)
  show "{''Close'', ''rsi'', ''macd'', ''macd_signal'', ''bb_lower'', ''bb_upper'', ''adx'',
          ''sma_200''} \<subseteq> set (columns df)"
    using add_indicators_columns [OF ai] df by auto
  show "\<forall>r\<in>set (rows df). \<forall>c\<in>set (columns df). r c \<noteq> None"
    using df by simp
qed

lemma entry_reasons_eq:
  assumes "{''Close'', ''rsi'', ''macd'', ''macd_signal'', ''bb_upper'', ''adx'', ''sma_200''}
             \<subseteq> set (columns df)" and "rows df \<noteq> []"
  shows "entry_reasons df =
     (let latest = last (rows df) in
      Inr ((if cell_lt (latest ''rsi'') (Some 50) then [''RSI<50''] else [])
         @ (if cell_gt (latest ''macd'') (latest ''macd_signal'') then [''MACD>Signal''] else [])
         @ (if cell_le (latest ''Close'') (latest ''bb_upper'') then [''Close<=BB_Upper''] else [])
         @ (if cell_gt (latest ''adx'') (Some 15) then [''ADX>15''] else [])
         @ (if cell_gt (latest ''Close'') (latest ''sma_200'') then [''Close>SMA200''] else [])))"
  using assms by (simp add: entry_reasons_def iloc_last_Cons item_def Let_def)

subsection \<open>The outcomes of a run\<close>

lemma run_bot_cases:
  obtains (entry_abort) e fs1 b1 where
      "entry_loop cfg w now (buy_log fs) (get_sp_list symbols) (fs, initial_balance cfg (buy_log fs))
         = (Some e, fs1, b1)"
      "run_bot cfg w now symbols fs = (Some e, fs1)"
  | (exit_abort) fs1 b1 e fs2 keep where
      "entry_loop cfg w now (buy_log fs) (get_sp_list symbols) (fs, initial_balance cfg (buy_log fs))
         = (None, fs1, b1)"
      "exit_loop cfg w now (buy_log fs1) (fs1, []) = (Some e, fs2, keep)"
      "run_bot cfg w now symbols fs = (Some e, fs2)"
  | (complete) fs1 b1 fs2 keep where
      "entry_loop cfg w now (buy_log fs) (get_sp_list symbols) (fs, initial_balance cfg (buy_log fs))
         = (None, fs1, b1)"
      "exit_loop cfg w now (buy_log fs1) (fs1, []) = (None, fs2, keep)"
      "run_bot cfg w now symbols fs = (None, fs2\<lparr>buy_log := keep\<rparr>)"
proof -
  obtain e1 fs1 b1 where en:
    "entry_loop cfg w now (buy_log fs) (get_sp_list symbols) (fs, initial_balance cfg (buy_log fs))
       = (e1, fs1, b1)"
    by (metis prod_cases3)
  obtain e2 fs2 keep where ex: "exit_loop cfg w now (buy_log fs1) (fs1, []) = (e2, fs2, keep)"
    by (metis prod_cases3)
  show thesis
  proof (cases e1)
    case (Some e)
    then have "run_bot cfg w now symbols fs = (Some e, fs1)"
      using en by (simp add: run_bot_def load_portfolio_def)
    then show thesis using entry_abort en Some by blast
  next
    case None
    show thesis
    proof (cases e2)
      case (Some e)
      then have "run_bot cfg w now symbols fs = (Some e, fs2)"
        using en ex None by (simp add: run_bot_def load_portfolio_def)
      then show thesis using exit_abort en ex None Some by blast
    next
      case n2: None
      then have "run_bot cfg w now symbols fs = (None, fs2\<lparr>buy_log := keep\<rparr>)"
        using en ex None by (simp add: run_bot_def load_portfolio_def)
      then show thesis using complete en ex None n2 by blast
    qed
  qed
qed

lemma max_hold_not_macd: "''Max Hold '' @ s \<noteq> ''MACD cross down''"
  by simp

lemma exit_loop_reasons:
  assumes nomacd: "\<forall>t df. download w t 30 = Inr (Some df) \<longrightarrow> ''macd'' \<notin> set (columns df)"
    and loop: "exit_loop cfg w now rs (fs, keep) = (e, fs', keep')"
  shows "\<exists>new. exit_log fs' = exit_log fs @ new \<and>
     (\<forall>x\<in>set new. exit_reason x \<in> {''Take Profit 10%'', ''Stop Loss 7%'',
              ''Max Hold '' @ str_int (MAX_HOLD_DAYS cfg) @ '' days''}
         \<and> exit_reason x \<noteq> ''MACD cross down'')"
proof -
  from exit_loop_inv [OF loop] obtain new where new: "exit_log fs' = exit_log fs @ new"
    "\<forall>x\<in>set new. \<exists>row\<in>set rs. \<exists>df. download w (ticker row) 30 = Inr (Some df)
              \<and> exit_rule cfg now row df = Inr (Some (exit_reason x))"
    by blast
  have "exit_reason x \<in> {''Take Profit 10%'', ''Stop Loss 7%'',
              ''Max Hold '' @ str_int (MAX_HOLD_DAYS cfg) @ '' days''}
         \<and> exit_reason x \<noteq> ''MACD cross down''" if "x \<in> set new" for x
  proof -
    from new(2) that obtain row df where "download w (ticker row) 30 = Inr (Some df)"
      and er: "exit_rule cfg now row df = Inr (Some (exit_reason x))" by blast
    then have "''macd'' \<notin> set (columns df)" using nomacd by blast
    from exit_rule_without_macd [OF this er]
    have m: "exit_reason x \<in> {''Take Profit 10%'', ''Stop Loss 7%'',
              ''Max Hold '' @ str_int (MAX_HOLD_DAYS cfg) @ '' days''}" .
    then have "exit_reason x \<noteq> ''MACD cross down''"
      using max_hold_not_macd [of "str_int (MAX_HOLD_DAYS cfg) @ '' days''"] by auto
    with m show ?thesis by simp
  qed
  with new(1) show ?thesis by blast
qed

text \<open>
  Claim C10. The exit phase evaluates the frame it downloads as it is; it adds no indicator
  column. When the frames of the provider have no \<open>macd\<close> column, every exit record a run
  appends has one of the reasons take-profit, stop-loss or max-hold, and never
  \<open>MACD cross down\<close>.
\<close>

theorem exit_never_macd:
  assumes "\<forall>t df. download w t 30 = Inr (Some df) \<longrightarrow> ''macd'' \<notin> set (columns df)"
  shows "\<exists>new. exit_log (snd (run_bot cfg w now symbols fs)) = exit_log fs @ new \<and>
     (\<forall>x\<in>set new. exit_reason x \<in> {''Take Profit 10%'', ''Stop Loss 7%'',
              ''Max Hold '' @ str_int (MAX_HOLD_DAYS cfg) @ '' days''}
         \<and> exit_reason x \<noteq> ''MACD cross down'')"
proof (cases rule: run_bot_cases [of cfg w now fs symbols])
  case (entry_abort e fs1 b1)
  from entry_loop_inv [OF entry_abort(1)] have "exit_log fs1 = exit_log fs" by blast
  then have "exit_log (snd (run_bot cfg w now symbols fs)) = exit_log fs @ []"
    using entry_abort(2) by simp
  then show ?thesis by (metis empty_iff list.set(1))
next
  case (exit_abort fs1 b1 e fs2 keep)
  from entry_loop_inv [OF exit_abort(1)] have "exit_log fs1 = exit_log fs" by blast
  with exit_loop_reasons [OF assms exit_abort(2)] exit_abort(3) show ?thesis by simp
next
  case (complete fs1 b1 fs2 keep)
  from entry_loop_inv [OF complete(1)] have "exit_log fs1 = exit_log fs" by blast
  with exit_loop_reasons [OF assms complete(2)] complete(3) show ?thesis by simp
qed



lemma dropna_ohlcv: "dropna (ohlcv c) = ohlcv c"
  by (simp add: dropna_def ohlcv_def bar_def)

lemma add_indicators_ohlcv: "add_indicators flat_ta (ohlcv c) = Inr (scanned c)"
  by (simp add: add_indicators_def assign_def col_def set_col_def flat_ta_def ohlcv_def scanned_def)

lemma dropna_scanned: "dropna (scanned c) = scanned c"
  by (simp add: dropna_def scanned_def bar_def)

lemma pipeline_example: "pipeline (const_world (ohlcv c)) t = Inr (Some (scanned c))"
  by (simp add: pipeline_def const_world_def dropna_ohlcv add_indicators_ohlcv dropna_scanned)
    (simp add: ohlcv_def empty_def)

subsection \<open>The entry signal\<close>

lemma five_labels:
  "length ((if a then [''RSI<50''] else []) @ (if b then [''MACD>Signal''] else [])
       @ (if c then [''Close<=BB_Upper''] else []) @ (if d then [''ADX>15''] else [])
       @ (if e then [''Close>SMA200''] else [])) = 5 \<longleftrightarrow> a \<and> b \<and> c \<and> d \<and> e"
  by (cases a; cases b; cases c; cases d; cases e) simp_all

lemma scan_try_frame:
  assumes p: "pipeline w t = Inr (Some df)" and r: "rows df \<noteq> []"
  shows "scan_try w t =
     Inr (Some df,
          if cell_lt (last (rows df) ''rsi'') (Some 50)
             \<and> cell_gt (last (rows df) ''macd'') (last (rows df) ''macd_signal'')
             \<and> cell_le (last (rows df) ''Close'') (last (rows df) ''bb_upper'')
             \<and> cell_gt (last (rows df) ''adx'') (Some 15)
             \<and> cell_gt (last (rows df) ''Close'') (last (rows df) ''sma_200'')
          then Some [''RSI<50'', ''MACD>Signal'', ''Close<=BB_Upper'', ''ADX>15'', ''Close>SMA200'']
          else None)"
proof -
  have cols: "{''Close'', ''rsi'', ''macd'', ''macd_signal'', ''bb_upper'', ''adx'', ''sma_200''}
             \<subseteq> set (columns df)"
    using pipeline_frame(1) [OF p] by blast
  show ?thesis
    unfolding scan_try_def p bnd_Inr option.case entry_reasons_eq [OF cols r] Let_def five_labels
    by simp
qed

lemma scan_try_no_rows:
  assumes p: "pipeline w t = Inr (Some df)" and r: "rows df = []"
  shows "scan_try w t = Inl IndexError"
  by (simp add: scan_try_def p entry_reasons_def iloc_last_def r)

lemma scan_try_no_frame: "pipeline w t = Inr None \<Longrightarrow> scan_try w t = Inr (None, None)"
  by (simp add: scan_try_def)

lemma scan_try_raises: "pipeline w t = Inl e \<Longrightarrow> scan_try w t = Inl e"
  by (simp add: scan_try_def)

text \<open>
  Claim C4. \<open>scan_indicators\<close> returns a list of reasons exactly when the pipeline gave a
  frame with a latest row on which all five conditions hold, and the list is then the five
  labels in the order of the source. In every other case (no data, an exception, no row
  left, a condition that fails) the reasons are \<open>None\<close>.
\<close>

theorem scan_indicators_confluence:
  "snd (scan_indicators w t) = Some rs \<longleftrightarrow>
     (\<exists>df. pipeline w t = Inr (Some df) \<and> rows df \<noteq> []
        \<and> cell_lt (last (rows df) ''rsi'') (Some 50)
        \<and> cell_gt (last (rows df) ''macd'') (last (rows df) ''macd_signal'')
        \<and> cell_le (last (rows df) ''Close'') (last (rows df) ''bb_upper'')
        \<and> cell_gt (last (rows df) ''adx'') (Some 15)
        \<and> cell_gt (last (rows df) ''Close'') (last (rows df) ''sma_200'')
        \<and> rs = [''RSI<50'', ''MACD>Signal'', ''Close<=BB_Upper'', ''ADX>15'', ''Close>SMA200''])"
proof (cases "pipeline w t")
  case (Inl e)
  then show ?thesis by (simp add: scan_indicators_def scan_try_raises)
next
  case (Inr d)
  show ?thesis
  proof (cases d)
    case None
    then show ?thesis using Inr by (simp add: scan_indicators_def scan_try_no_frame)
  next
    case (Some df)
    show ?thesis
    proof (cases "rows df = []")
      case True
      then show ?thesis using Inr Some by (simp add: scan_indicators_def scan_try_no_rows)
    next
      case False
      have p: "pipeline w t = Inr (Some df)" using Inr Some by simp
      show ?thesis
        unfolding scan_indicators_def scan_try_frame [OF p False] p
        using False by auto
    qed
  qed
qed

theorem scan_indicators_confluence_witness:
  "snd (scan_indicators (const_world (ohlcv 25)) ''AAA'')
     = Some [''RSI<50'', ''MACD>Signal'', ''Close<=BB_Upper'', ''ADX>15'', ''Close>SMA200'']
   \<and> snd (scan_indicators (const_world (ohlcv 35)) ''AAA'') = None"
proof -
  have a: "\<exists>rs. snd (scan_indicators (const_world (ohlcv 25)) ''AAA'') = Some rs
               \<and> rs = [''RSI<50'', ''MACD>Signal'', ''Close<=BB_Upper'', ''ADX>15'', ''Close>SMA200'']"
    unfolding scan_indicators_confluence pipeline_example
    by (simp add: scanned_def bar_def cell_lt_def cell_gt_def cell_le_def)
  have "snd (scan_indicators (const_world (ohlcv 35)) ''AAA'') \<noteq> Some rs" for rs
    unfolding scan_indicators_confluence pipeline_example
    by (simp add: scanned_def bar_def cell_lt_def cell_gt_def cell_le_def)
  then have b: "snd (scan_indicators (const_world (ohlcv 35)) ''AAA'') = None"
    by (cases "snd (scan_indicators (const_world (ohlcv 35)) ''AAA'')") auto
  from a b show ?thesis by simp
qed

subsection \<open>Position sizing\<close>





lemma join_labels:
  "join '', '' [''RSI<50'', ''MACD>Signal'', ''Close<=BB_Upper'', ''ADX>15'', ''Close>SMA200'']
     = ''RSI<50, MACD>Signal, Close<=BB_Upper, ADX>15, Close>SMA200''"
  by simp


subsection \<open>Tickers without a signal\<close>

lemma entry_step_no_signal:
  "scan_indicators w t = (None, None) \<Longrightarrow> entry_step cfg w now pf t st = Inr st"
  by (simp add: entry_step_def)

text \<open>
  Claim C8. When the download raises, gives \<open>None\<close> or an empty frame, when an indicator
  raises, when no row is left after \<open>dropna\<close>, or when anything else in the body raises,
  \<open>scan_indicators\<close> returns \<open>(None, None)\<close>; its type has no exception. The entry step
  then leaves the state unchanged and the loop goes on with the next ticker.
\<close>

theorem scan_indicators_swallows:
  assumes "download w t 250 = Inl e
     \<or> download w t 250 = Inr None
     \<or> (\<exists>df. download w t 250 = Inr (Some df)
           \<and> (empty df \<or> add_indicators (ta w) (dropna df) = Inl e
               \<or> (\<exists>df'. add_indicators (ta w) (dropna df) = Inr df' \<and> rows (dropna df') = [])))
     \<or> scan_try w t = Inl e"
  shows "scan_indicators w t = (None, None) \<and> entry_step cfg w now pf t st = Inr st"
proof -
  have "scan_try w t = Inr (None, None) \<or> (\<exists>e'. scan_try w t = Inl e')"
    using assms
  proof (elim disjE exE conjE)
    assume "download w t 250 = Inl e"
    then show ?thesis by (simp add: scan_try_def pipeline_def)
  next
    assume "download w t 250 = Inr None"
    then show ?thesis by (simp add: scan_try_def pipeline_def)
  next
    fix df assume "download w t 250 = Inr (Some df)" "empty df"
    then show ?thesis by (simp add: scan_try_def pipeline_def)
  next
    fix df assume "download w t 250 = Inr (Some df)" "add_indicators (ta w) (dropna df) = Inl e"
    then show ?thesis by (simp add: scan_try_def pipeline_def)
  next
    fix df df' assume "download w t 250 = Inr (Some df)"
      "add_indicators (ta w) (dropna df) = Inr df'" "rows (dropna df') = []"
    then show ?thesis
      by (simp add: scan_try_def pipeline_def entry_reasons_def iloc_last_def)
  next
    assume "scan_try w t = Inl e"
    then show ?thesis by simp
  qed
  then have "scan_indicators w t = (None, None)"
    by (auto simp: scan_indicators_def)
  then show ?thesis by (simp add: entry_step_no_signal)
qed

theorem scan_indicators_swallows_witness:
  "scan_indicators no_data_world ''AAA'' = (None, None)
   \<and> scan_indicators (failing_world (ohlcv 25)) ''AAA'' = (None, None)
   \<and> entry_step default_config (failing_world (ohlcv 25)) 0 [] ''AAA''
        (\<lparr>buy_log = [], exit_log = []\<rparr>, 10000) = Inr (\<lparr>buy_log = [], exit_log = []\<rparr>, 10000)"
  using scan_indicators_swallows [where w = no_data_world and t = "''AAA''" and e = LibraryError]
    scan_indicators_swallows [where w = "failing_world (ohlcv 25)" and t = "''AAA''"
      and e = LibraryError and cfg = default_config and now = 0 and pf = "[]"
      and st = "(\<lparr>buy_log = [], exit_log = []\<rparr>, 10000)"]
  by (simp add: no_data_world_def failing_world_def dropna_ohlcv add_indicators_def assign_def)
    (simp add: ohlcv_def col_def)

subsection \<open>Runs on the example inputs\<close>







theorem exit_never_macd_witness:
  "run_bot default_config (const_world (ohlcv 111)) 0 [] \<lparr>buy_log = [held ''AAA'' 100 0], exit_log = []\<rparr>
     = (None, \<lparr>buy_log = [], exit_log = [\<lparr>exit_ticker = ''AAA'', exit_price = Some 111,
                exit_date = 0, exit_reason = ''Take Profit 10%''\<rparr>]\<rparr>)
   \<and> (\<exists>new. exit_log (snd (run_bot default_config (const_world (ohlcv 111)) 0 []
                \<lparr>buy_log = [held ''AAA'' 100 0], exit_log = []\<rparr>)) = [] @ new
         \<and> (\<forall>x\<in>set new. exit_reason x \<noteq> ''MACD cross down''))"
proof -
  have h: "\<forall>t df. download (const_world (ohlcv 111)) t 30 = Inr (Some df)
             \<longrightarrow> ''macd'' \<notin> set (columns df)"
    by (simp add: const_world_def ohlcv_def)
  have step: "exit_step default_config (const_world (ohlcv 111)) 0 (held ''AAA'' 100 0)
       (\<lparr>buy_log = [held ''AAA'' 100 0], exit_log = []\<rparr>, [])
     = Inr (\<lparr>buy_log = [held ''AAA'' 100 0], exit_log = [\<lparr>exit_ticker = ''AAA'',
              exit_price = Some 111, exit_date = 0, exit_reason = ''Take Profit 10%''\<rparr>]\<rparr>, [])"
    by (simp add: exit_step_def const_world_def exit_rule_def iloc_last_def item_def empty_def
        example_defs cell_ge_def cell_le_def log_exit_def strftime_date_def day_us_def)
  have run: "run_bot default_config (const_world (ohlcv 111)) 0 []
       \<lparr>buy_log = [held ''AAA'' 100 0], exit_log = []\<rparr>
     = (None, \<lparr>buy_log = [], exit_log = [\<lparr>exit_ticker = ''AAA'', exit_price = Some 111,
                exit_date = 0, exit_reason = ''Take Profit 10%''\<rparr>]\<rparr>)"
    by (simp add: run_bot_def get_sp_list_Nil load_portfolio_def step)
  from exit_never_macd [OF h, of default_config 0 "[]"
      "\<lparr>buy_log = [held ''AAA'' 100 0], exit_log = []\<rparr>"] run
  show ?thesis by auto
qed

end
